theory Spec2Isabelle
  imports Main "HOL-Library.Code_Target_Nat"
begin

section \<open>The tunnel gateway of \<open>tunnel-server/src/app.ts\<close>\<close>

text \<open>
  The gateway is one HTTP server. Its request listener and its upgrade listener decide,
  from the \<open>Host\<close> header, whether a request belongs to the gateway's own control plane
  or is offered to the tunnel proxy; the control plane has a health route, a tunnel
  discovery route and the login route.

  The collaborators the handlers call (tunnel store, session store, authenticator factory,
  proxy, the \<open>editUrl\<close> helper of \<open>url.js\<close>, the platform's relative URL constructor) are
  parameters of the model, gathered in the record \<open>deps\<close>. Every call a handler makes to
  a collaborator is appended to a list of effects, in program order, so that "never
  invoked" and "before" are statements about that list.

  Strings are byte strings: a character outside ASCII is the bytes of its UTF-8 form.
\<close>

subsection \<open>Strings as JavaScript uses them here\<close>

text \<open>\<open>s.split(c)\<close> for a one-character separator: never empty, \<open>"".split(":")\<close> is \<open>[""]\<close>.\<close>

fun split :: "char \<Rightarrow> string \<Rightarrow> string list" where
  "split c [] = [[]]"
| "split c (x # xs) =
     (if x = c then [] # split c xs
      else (case split c xs of
              [] \<Rightarrow> [[x]]
            | y # ys \<Rightarrow> (x # y) # ys))"

text \<open>\<open>a?.[0]\<close>: the first element, \<open>undefined\<close> (here \<open>None\<close>) when there is none.\<close>

definition first_elem :: "'a list \<Rightarrow> 'a option" where
  "first_elem xs = (case xs of [] \<Rightarrow> None | x # _ \<Rightarrow> Some x)"

definition startsWith :: "string \<Rightarrow> string \<Rightarrow> bool" where
  "startsWith s p = (take (length p) s = p)"

text \<open>The text before a separator, and the text after it (\<open>None\<close> when it does not occur).\<close>

definition before_first :: "char \<Rightarrow> string \<Rightarrow> string" where
  "before_first sep s = takeWhile (\<lambda>c. c \<noteq> sep) s"

definition after_first :: "char \<Rightarrow> string \<Rightarrow> string option" where
  "after_first sep s =
     (case dropWhile (\<lambda>c. c \<noteq> sep) s of [] \<Rightarrow> None | _ # r \<Rightarrow> Some r)"

definition is_digit :: "char \<Rightarrow> bool" where
  "is_digit c = (48 \<le> (of_char c :: nat) \<and> (of_char c :: nat) \<le> 57)"

text \<open>ASCII lower-casing, used to say "differs only in letter case".\<close>

definition ascii_lower :: "char \<Rightarrow> char" where
  "ascii_lower c =
     (case map_of (zip ''ABCDEFGHIJKLMNOPQRSTUVWXYZ'' ''abcdefghijklmnopqrstuvwxyz'') c of
        None \<Rightarrow> c
      | Some l \<Rightarrow> l)"

definition lower :: "string \<Rightarrow> string" where
  "lower s = map ascii_lower s"

subsection \<open>Raw requests and the hostname classifier\<close>

text \<open>
  \<open>http.IncomingMessage\<close>: Node lower-cases header names and leaves the values as they
  were sent, so \<open>headers.host\<close> is the lookup of \<open>host\<close>.
\<close>

record raw_request =
  req_method :: string
  req_url :: string
  req_headers :: "(string \<times> string) list"

definition headers_host :: "raw_request \<Rightarrow> string option" where
  "headers_host req = map_of (req_headers req) ''host''"

text \<open>
  \<open>isNonProxyRequest\<close>, with \<open>authHostname\<close> and \<open>apiHostname\<close> built from the base hostname
  as in the server factory:
  \<^verbatim>\<open>const host = headers.host?.split(':')?.[0]
return (host === authHostname) || (host === apiHostname)\<close>
\<close>

definition authHostname :: "string \<Rightarrow> string" where
  "authHostname baseHostname = ''auth.'' @ baseHostname"

definition apiHostname :: "string \<Rightarrow> string" where
  "apiHostname baseHostname = ''api.'' @ baseHostname"

definition isNonProxyRequest :: "string \<Rightarrow> raw_request \<Rightarrow> bool" where
  "isNonProxyRequest baseHostname req =
     (let host = (case headers_host req of
                    None \<Rightarrow> None
                  | Some h \<Rightarrow> first_elem (split CHR '':'' h))
      in host = Some (authHostname baseHostname) \<or> host = Some (apiHostname baseHostname))"

text \<open>
  The specification's words, "the \<open>Host\<close> header with any port suffix stripped": a port
  suffix is a colon followed by digits only, at the end of the value; a value that does
  not end so has no port suffix and is left as it is.
\<close>

definition strip_port_suffix :: "string \<Rightarrow> string" where
  "strip_port_suffix h =
     (case dropWhile is_digit (rev h) of
        [] \<Rightarrow> h
      | c # r \<Rightarrow> if c = CHR '':'' then rev r else h)"

datatype traffic = Control_plane_traffic | Tunnel_traffic

definition classify :: "string \<Rightarrow> raw_request \<Rightarrow> traffic" where
  "classify baseHostname req =
     (if isNonProxyRequest baseHostname req then Control_plane_traffic else Tunnel_traffic)"

subsection \<open>URLs\<close>

text \<open>
  The platform's \<open>URL\<close> object, with the components of the URL standard. The port is
  \<open>None\<close> when it is absent or the scheme's default; query and fragment are \<open>None\<close> when
  absent. \<open>baseUrl.hostname\<close> is the host.
\<close>

record url =
  url_scheme :: string
  url_username :: string
  url_password :: string
  url_hostname :: string
  url_port :: "nat option"
  url_pathname :: string
  url_query :: "string option"
  url_fragment :: "string option"

definition digit_char :: "nat \<Rightarrow> char" where
  "digit_char n = ''0123456789ABCDEF'' ! (n mod 16)"

fun decimal :: "nat \<Rightarrow> string" where
  "decimal n = (if n < 10 then [digit_char n] else decimal (n div 10) @ [digit_char (n mod 10)])"

declare decimal.simps [simp del]

text \<open>\<open>url.toString()\<close>: the URL serializer, for a URL that has a host.\<close>

definition URL_toString :: "url \<Rightarrow> string" where
  "URL_toString u =
     url_scheme u @ ''://''
     @ (if url_username u = [] \<and> url_password u = [] then []
        else url_username u
             @ (if url_password u = [] then [] else '':'' @ url_password u)
             @ ''@'')
     @ url_hostname u
     @ (case url_port u of None \<Rightarrow> [] | Some p \<Rightarrow> '':'' @ decimal p)
     @ url_pathname u
     @ (case url_query u of None \<Rightarrow> [] | Some q \<Rightarrow> ''?'' @ q)
     @ (case url_fragment u of None \<Rightarrow> [] | Some f \<Rightarrow> ''#'' @ f)"

text \<open>
  \<open>encodeURIComponent\<close>: every byte is replaced by \<open>%XX\<close> (upper-case hexadecimal) except
  the letters, the digits and \<open>- _ . ! ~ * ' ( )\<close>.
\<close>

definition is_alnum :: "char \<Rightarrow> bool" where
  "is_alnum c =
     (let n = (of_char c :: nat)
      in (48 \<le> n \<and> n \<le> 57) \<or> (65 \<le> n \<and> n \<le> 90) \<or> (97 \<le> n \<and> n \<le> 122))"

definition uri_unreserved :: "char \<Rightarrow> bool" where
  "uri_unreserved c = (is_alnum c \<or> c \<in> set ''-_.!~*()'' \<or> c = CHR 0x27)"

definition percent_byte :: "char \<Rightarrow> string" where
  "percent_byte c =
     [CHR ''%'', digit_char ((of_char c :: nat) div 16), digit_char ((of_char c :: nat) mod 16)]"

definition encodeURIComponent :: "string \<Rightarrow> string" where
  "encodeURIComponent s =
     concat (map (\<lambda>c. if uri_unreserved c then [c] else percent_byte c) s)"

text \<open>
  The options object of \<open>editUrl(url, {hostname, queryParams, path})\<close>. \<open>editUrl\<close> itself
  lives in \<open>url.js\<close> and is a parameter of the model.
\<close>

record url_edit =
  edit_hostname :: "string option"
  edit_queryParams :: "(string \<times> string) list option"
  edit_path :: "string option"

text \<open>
  \<open>buildLoginUrl\<close>:
  \<^verbatim>\<open>editUrl(baseUrl, {
  hostname: `auth.${baseUrl.hostname}`,
  queryParams: { env, ...returnPath ? { returnPath } : {} },
  path: '/login',
}).toString()\<close>
  An absent or empty \<open>returnPath\<close> is falsy and adds no parameter.
\<close>

definition buildLoginUrl ::
  "(url \<Rightarrow> url_edit \<Rightarrow> url) \<Rightarrow> url \<Rightarrow> string \<Rightarrow> string option \<Rightarrow> string" where
  "buildLoginUrl editUrl baseUrl env returnPath =
     URL_toString (editUrl baseUrl
       \<lparr> edit_hostname = Some (''auth.'' @ url_hostname baseUrl),
         edit_queryParams = Some ((''env'', env) #
           (case returnPath of
              None \<Rightarrow> []
            | Some p \<Rightarrow> if p \<noteq> [] then [(''returnPath'', p)] else [])),
         edit_path = Some ''/login'' \<rparr>)"

subsection \<open>Tunnels, claims, sessions and the collaborators\<close>

record tunnel =
  envId :: string
  hostname :: string
  publicKey :: string
  publicKeyThumbprint :: string
  access :: string
  meta :: string

text \<open>Claims are an object whose shape the gateway never looks at.\<close>

datatype claims = Claims string

text \<open>The result of \<open>await auth(req.raw)\<close>: \<open>isAuthenticated\<close> and, when true, the claims.\<close>

datatype auth_result = Unauthenticated | Authenticated claims

fun isAuthenticated :: "auth_result \<Rightarrow> bool" where
  "isAuthenticated Unauthenticated = False"
| "isAuthenticated (Authenticated _) = True"

text \<open>
  A session handle. \<open>user\<close> is what \<open>session.user\<close> reads, \<open>persisted\<close> is what the session
  store durably holds for this browser and thumbprint, \<open>save_pending\<close> says that a save
  has been started and has not resolved yet.
\<close>

record session =
  user :: "claims option"
  persisted :: "claims option"
  save_pending :: bool

text \<open>
  Modelled from the spec: the session store (\<open>session.js\<close>) is not part of the sources at
  hand. The specification describes \<open>Session.save()\<close> as asynchronous, durable once
  resolved; a store whose \<open>save\<close> has done its work when the call returns is the other
  possibility. The kind is a parameter.
\<close>

datatype save_kind = Save_synchronous | Save_asynchronous

definition session_open :: "claims option \<Rightarrow> session" where
  "session_open stored = \<lparr> user = stored, persisted = stored, save_pending = False \<rparr>"

definition session_set :: "claims \<Rightarrow> session \<Rightarrow> session" where
  "session_set c s = s\<lparr> user := Some c \<rparr>"

text \<open>
  The statement \<open>session.save()\<close>: the call is made and its result is dropped, nothing
  waits for it. A synchronous save has persisted the staged claims when the call returns;
  an asynchronous one has only been started.
\<close>

definition session_save_call :: "save_kind \<Rightarrow> session \<Rightarrow> session" where
  "session_save_call k s =
     (case k of
        Save_synchronous \<Rightarrow> s\<lparr> persisted := user s \<rparr>
      | Save_asynchronous \<Rightarrow> s\<lparr> save_pending := True \<rparr>)"

text \<open>What the resolution of a pending save does, later, outside the handler.\<close>

definition session_save_resolved :: "session \<Rightarrow> session" where
  "session_save_resolved s =
     (if save_pending s then s\<lparr> persisted := user s, save_pending := False \<rparr> else s)"

text \<open>A handler the proxy returns is opaque: the dispatcher only calls it.\<close>

type_synonym handler = nat

record deps =
  baseUrl :: url
  saasBaseUrl :: "string option"
  activeTunnelStore_get :: "string \<Rightarrow> tunnel option"
  activeTunnelStore_getByPkThumbprint :: "string \<Rightarrow> tunnel list option"
  sessionStore :: "raw_request \<Rightarrow> string \<Rightarrow> claims option"
  session_save :: save_kind
  authFactory :: "tunnel \<Rightarrow> raw_request \<Rightarrow> auth_result"
  routeRequest :: "raw_request \<Rightarrow> handler option"
  routeUpgrade :: "raw_request \<Rightarrow> handler option"
  editUrl :: "url \<Rightarrow> url_edit \<Rightarrow> url"
  newURL :: "string \<Rightarrow> url \<Rightarrow> url option"

text \<open>
  \<^item> \<open>activeTunnelStore_get\<close> is \<open>activeTunnelStore.get(envId)\<close>, giving the \<open>value\<close> of the
    entry or nothing;
  \<^item> \<open>sessionStore req thumbprint\<close> is the user that
    \<open>sessionStore(req.raw, res.raw, thumbprint)\<close> finds for this request;
  \<^item> \<open>session_save\<close> is the kind of \<open>save\<close> the session store provides;
  \<^item> \<open>authFactory t req\<close> is \<open>await authFactory(t)(req)\<close>;
  \<^item> \<open>routeRequest\<close> and \<open>routeUpgrade\<close> are the proxy's, \<open>None\<close> when it returns no handler;
  \<^item> \<open>newURL input base\<close> is \<open>new URL(input, base)\<close>, \<open>None\<close> when the constructor throws
    its \<open>TypeError\<close>.
\<close>

subsection \<open>Effects\<close>

datatype effect =
    Log_debug string
  | Log_warn string
  | Route_request raw_request
  | Route_upgrade raw_request
  | Proxy_handler handler raw_request
  | Proxy_upgrade_handler handler raw_request
  | Control_plane raw_request
  | Socket_end string
  | Store_get string
  | Store_getByPkThumbprint string
  | Session_open string
  | Session_set claims
  | Session_save
  | Auth_build tunnel
  | Auth_invoke tunnel

fun is_route_upgrade :: "effect \<Rightarrow> bool" where
  "is_route_upgrade (Route_upgrade _) = True"
| "is_route_upgrade _ = False"

fun is_control_plane :: "effect \<Rightarrow> bool" where
  "is_control_plane (Control_plane _) = True"
| "is_control_plane _ = False"

fun is_auth_effect :: "effect \<Rightarrow> bool" where
  "is_auth_effect (Auth_build _) = True"
| "is_auth_effect (Auth_invoke _) = True"
| "is_auth_effect _ = False"

fun is_session_effect :: "effect \<Rightarrow> bool" where
  "is_session_effect (Session_open _) = True"
| "is_session_effect (Session_set _) = True"
| "is_session_effect Session_save = True"
| "is_session_effect _ = False"

fun is_session_write :: "effect \<Rightarrow> bool" where
  "is_session_write (Session_set _) = True"
| "is_session_write Session_save = True"
| "is_session_write _ = False"

text \<open>Everything written to the raw socket, in order.\<close>

fun socket_output :: "effect list \<Rightarrow> string" where
  "socket_output [] = []"
| "socket_output (Socket_end s # es) = s @ socket_output es"
| "socket_output (_ # es) = socket_output es"

subsection \<open>The dispatcher\<close>

text \<open>
  The request listener:
  \<^verbatim>\<open>if (req.url !== '/healthz') { log.debug('request %j', ...) }
const proxyHandler = !isNonProxyRequest(req) && proxy.routeRequest(req)
return proxyHandler ? proxyHandler(req, res) : handler(req, res)\<close>
  \<open>handler\<close> is the control plane's router.
\<close>

definition on_request :: "deps \<Rightarrow> raw_request \<Rightarrow> effect list" where
  "on_request d req =
     (if req_url req \<noteq> ''/healthz'' then [Log_debug ''request''] else [])
     @ (if isNonProxyRequest (url_hostname (baseUrl d)) req then [Control_plane req]
        else Route_request req #
          (case routeRequest d req of
             Some h \<Rightarrow> [Proxy_handler h req]
           | None \<Rightarrow> [Control_plane req]))"

text \<open>
  The upgrade listener:
  \<^verbatim>\<open>log.debug('upgrade', req.url)
const proxyHandler = !isNonProxyRequest(req) && proxy.routeUpgrade(req)
if (proxyHandler) { return proxyHandler(req, socket, head) }
log.warn('upgrade request %j not found', ...)
socket.end('Not found')\<close>
\<close>

definition on_upgrade :: "deps \<Rightarrow> raw_request \<Rightarrow> effect list" where
  "on_upgrade d req =
     Log_debug ''upgrade'' #
     (if isNonProxyRequest (url_hostname (baseUrl d)) req
      then [Log_warn ''upgrade request not found'', Socket_end ''Not found'']
      else Route_upgrade req #
        (case routeUpgrade d req of
           Some h \<Rightarrow> [Proxy_upgrade_handler h req]
         | None \<Rightarrow> [Log_warn ''upgrade request not found'', Socket_end ''Not found'']))"

subsection \<open>Responses\<close>

record tunnel_info =
  info_envId :: string
  info_hostname :: string
  info_access :: string
  info_meta :: string

datatype body =
    No_body
  | Text_body string
  | Json_error string
  | Json_tunnels "tunnel_info list"

record response =
  statusCode :: nat
  res_headers :: "(string \<times> string) list"
  body :: body

text \<open>
  A handler either replies or throws; what it throws goes to the framework's error
  handling. The only throw in these handlers is the \<open>TypeError\<close> of \<open>new URL\<close>.
\<close>

datatype error = TypeError_Invalid_URL

record run =
  reply :: "error + response"
  effects :: "effect list"
  session_at_reply :: "session option"

definition json_error :: "nat \<Rightarrow> string \<Rightarrow> response" where
  "json_error code msg = \<lparr> statusCode = code, res_headers = [], body = Json_error msg \<rparr>"

text \<open>\<open>res.header(k, v) ... .redirect(target)\<close>: status 302 and a \<open>location\<close> header.\<close>

definition redirect :: "(string \<times> string) list \<Rightarrow> string \<Rightarrow> response" where
  "redirect hs target =
     \<lparr> statusCode = 302, res_headers = hs @ [(''location'', target)], body = No_body \<rparr>"

subsection \<open>Tunnel discovery: \<open>GET /profiles/:profileId/tunnels\<close>\<close>

text \<open>
  \<^verbatim>\<open>const tunnels = (await activeTunnelStore.getByPkThumbprint(profileId))
if (!tunnels?.length) return []
const auth = authFactory(tunnels[0])
const result = await auth(req.raw)
if (!result.isAuthenticated) { res.statusCode = 401; return await res.send('Unauthenticated') }
return await res.send(tunnels.map(t => ({ envId, hostname, access, meta })))\<close>
\<close>

definition tunnel_projection :: "tunnel \<Rightarrow> tunnel_info" where
  "tunnel_projection t =
     \<lparr> info_envId = envId t, info_hostname = hostname t,
       info_access = access t, info_meta = meta t \<rparr>"

definition profile_tunnels :: "deps \<Rightarrow> string \<Rightarrow> raw_request \<Rightarrow> run" where
  "profile_tunnels d profileId req =
     (let empty_list =
            \<lparr> reply = Inr \<lparr> statusCode = 200, res_headers = [], body = Json_tunnels [] \<rparr>,
              effects = [Store_getByPkThumbprint profileId],
              session_at_reply = None \<rparr>
      in case activeTunnelStore_getByPkThumbprint d profileId of
           None \<Rightarrow> empty_list
         | Some [] \<Rightarrow> empty_list
         | Some (t # ts) \<Rightarrow>
             \<lparr> reply =
                 (if \<not> isAuthenticated (authFactory d t req)
                  then Inr \<lparr> statusCode = 401, res_headers = [],
                             body = Text_body ''Unauthenticated'' \<rparr>
                  else Inr \<lparr> statusCode = 200, res_headers = [],
                             body = Json_tunnels (map tunnel_projection (t # ts)) \<rparr>),
               effects = [Store_getByPkThumbprint profileId, Auth_build t, Auth_invoke t],
               session_at_reply = None \<rparr>)"

subsection \<open>Login: \<open>GET /login\<close>\<close>

text \<open>
  The handler runs on a request whose query string passed the route's schema: \<open>env\<close> is a
  string, \<open>returnPath\<close> is a string or absent.
\<close>

record login_request =
  raw :: raw_request
  query_env :: string
  query_returnPath :: "string option"

text \<open>
  The last statement of the handler:
  \<^verbatim>\<open>return await res.redirect(
  new URL(returnPath, editUrl(baseUrl, { hostname: `${envId}.${baseUrl.hostname}` })).toString())\<close>
\<close>

definition tenant_base :: "deps \<Rightarrow> string \<Rightarrow> url" where
  "tenant_base d env =
     editUrl d (baseUrl d)
       \<lparr> edit_hostname = Some (env @ ''.'' @ url_hostname (baseUrl d)),
         edit_queryParams = None, edit_path = None \<rparr>"

definition redirect_to_tenant :: "deps \<Rightarrow> string \<Rightarrow> string \<Rightarrow> error + response" where
  "redirect_to_tenant d env returnPath =
     (case newURL d returnPath (tenant_base d env) of
        None \<Rightarrow> Inl TypeError_Invalid_URL
      | Some u \<Rightarrow> Inr (redirect [] (URL_toString u)))"

text \<open>
  The redirect to the identity provider:
  \<^verbatim>\<open>res.header('Access-Control-Allow-Origin', saasBaseUrl)
  .redirect(`${saasBaseUrl}/api/auth/login?redirectTo=${
    encodeURIComponent(buildLoginUrl({ baseUrl, env: envId, returnPath }))}`)\<close>
\<close>

definition redirect_to_idp :: "deps \<Rightarrow> string \<Rightarrow> string \<Rightarrow> string \<Rightarrow> response" where
  "redirect_to_idp d saas env returnPath =
     redirect [(''Access-Control-Allow-Origin'', saas)]
       (saas @ ''/api/auth/login?redirectTo=''
          @ encodeURIComponent (buildLoginUrl (editUrl d) (baseUrl d) env (Some returnPath)))"

text \<open>\<open>const { env: envId, returnPath = '/' } = req.query\<close>: the default of an absent \<open>returnPath\<close>.\<close>

definition returnPath_of :: "login_request \<Rightarrow> string" where
  "returnPath_of req = (case query_returnPath req of None \<Rightarrow> ''/'' | Some p \<Rightarrow> p)"

text \<open>
  The handler, branch by branch in the order of the source. \<open>if (saasBaseUrl)\<close> holds for
  a string that is present and not empty; \<open>if (!session.user)\<close> holds when the session has
  no claims.
\<close>

definition login :: "deps \<Rightarrow> login_request \<Rightarrow> run" where
  "login d req =
     (let env = query_env req;
          returnPath = returnPath_of req
      in if \<not> startsWith returnPath ''/'' then
           \<lparr> reply = Inr (json_error 400 ''returnPath must be a relative path''),
             effects = [], session_at_reply = None \<rparr>
         else
           (case activeTunnelStore_get d env of
              None \<Rightarrow>
                \<lparr> reply = Inr (json_error 404 ''unknown envId''),
                  effects = [Store_get env], session_at_reply = None \<rparr>
            | Some activeTunnel \<Rightarrow>
                (let thumbprint = publicKeyThumbprint activeTunnel;
                     s = session_open (sessionStore d (raw req) thumbprint);
                     opened = [Store_get env, Session_open thumbprint]
                 in case user s of
                      Some _ \<Rightarrow>
                        \<lparr> reply = redirect_to_tenant d env returnPath,
                          effects = opened, session_at_reply = Some s \<rparr>
                    | None \<Rightarrow>
                        (let authed = opened @ [Auth_build activeTunnel, Auth_invoke activeTunnel]
                         in case authFactory d activeTunnel (raw req) of
                              Unauthenticated \<Rightarrow>
                                (case saasBaseUrl d of
                                   None \<Rightarrow>
                                     \<lparr> reply = Inr (json_error 401 ''Unauthorized''),
                                       effects = authed, session_at_reply = Some s \<rparr>
                                 | Some saas \<Rightarrow>
                                     if saas \<noteq> [] then
                                       \<lparr> reply = Inr (redirect_to_idp d saas env returnPath),
                                         effects = authed, session_at_reply = Some s \<rparr>
                                     else
                                       \<lparr> reply = Inr (json_error 401 ''Unauthorized''),
                                         effects = authed, session_at_reply = Some s \<rparr>)
                            | Authenticated c \<Rightarrow>
                                \<lparr> reply = redirect_to_tenant d env returnPath,
                                  effects = authed @ [Session_set c, Session_save],
                                  session_at_reply =
                                    Some (session_save_call (session_save d)
                                            (session_set c s)) \<rparr>))))"

subsection \<open>The platform's URL constructor on the handler's inputs\<close>

text \<open>
  \<open>URL_new input base\<close> follows the URL standard's parser for \<open>new URL(input, base)\<close> where
  \<open>input\<close> begins with a slash and \<open>base\<close> has one of the special schemes \<open>http\<close>, \<open>https\<close>,
  \<open>ws\<close>, \<open>wss\<close>, \<open>ftp\<close> (the login handler passes nothing else for a web gateway):
  \<^item> leading and trailing bytes up to the space are stripped, tabs and newlines are removed;
  \<^item> a second slash or backslash starts an authority: all further slashes and backslashes
    are skipped, the authority ends at \<open>/\<close>, \<open>\\<close>, \<open>?\<close>, \<open>#\<close> or the end, credentials end at
    its last \<open>@\<close>, the port follows the first colon after them;
  \<^item> otherwise the host, port and credentials are those of the base;
  \<^item> the host is percent-decoded and lower-cased, and a host whose last label is a number
    is read as an IPv4 address; the path loses its dot segments; credentials, path,
    query and fragment are percent-encoded with their sets;
  \<^item> \<open>None\<close> is the constructor's \<open>TypeError\<close>: an empty host, a forbidden byte in the host,
    an IPv4 address out of range, a port that is not a number below 65536.
  Outside the model, and mapped to \<open>None\<close>: an input that does not begin with a slash, a
  base with another scheme, a host with a byte outside ASCII or a bracket (IDNA and IPv6
  are not modelled). The Punycode of an \<open>xn--\<close> label is not validated.
\<close>

definition is_special :: "string \<Rightarrow> bool" where
  "is_special scheme = (scheme \<in> set [''ftp'', ''http'', ''https'', ''ws'', ''wss''])"

definition default_port :: "string \<Rightarrow> nat option" where
  "default_port scheme =
     map_of [(''ftp'', 21), (''http'', 80), (''https'', 443), (''ws'', 80), (''wss'', 443)] scheme"

definition c0_or_space :: "char \<Rightarrow> bool" where
  "c0_or_space c = ((of_char c :: nat) \<le> 32)"

definition tab_or_newline :: "char \<Rightarrow> bool" where
  "tab_or_newline c = ((of_char c :: nat) = 9 \<or> (of_char c :: nat) = 10 \<or> (of_char c :: nat) = 13)"

definition url_preprocess :: "string \<Rightarrow> string" where
  "url_preprocess s =
     filter (\<lambda>c. \<not> tab_or_newline c)
       (rev (dropWhile c0_or_space (rev (dropWhile c0_or_space s))))"

definition is_slash :: "char \<Rightarrow> bool" where
  "is_slash c = (c = CHR ''/'' \<or> c = CHR 0x5C)"

definition authority_end :: "char \<Rightarrow> bool" where
  "authority_end c = (is_slash c \<or> c = CHR ''?'' \<or> c = CHR ''#'')"

definition digits_value :: "string \<Rightarrow> nat" where
  "digits_value ds = foldl (\<lambda>a c. 10 * a + ((of_char c :: nat) - 48)) 0 ds"

text \<open>
  The percent-encode sets of the standard, on bytes: the C0 controls and every byte above
  \<open>~\<close> belong to each of them.
\<close>

definition c0_control_set :: "char \<Rightarrow> bool" where
  "c0_control_set c = ((of_char c :: nat) \<le> 31 \<or> 126 < (of_char c :: nat))"

definition fragment_set :: "char \<Rightarrow> bool" where
  "fragment_set c = (c0_control_set c \<or> (of_char c :: nat) \<in> set [0x20, 0x22, 0x3C, 0x3E, 0x60])"

definition query_set :: "char \<Rightarrow> bool" where
  "query_set c = (c0_control_set c \<or> (of_char c :: nat) \<in> set [0x20, 0x22, 0x23, 0x3C, 0x3E])"

definition special_query_set :: "char \<Rightarrow> bool" where
  "special_query_set c = (query_set c \<or> (of_char c :: nat) = 0x27)"

definition path_set :: "char \<Rightarrow> bool" where
  "path_set c = (query_set c \<or> (of_char c :: nat) \<in> set [0x3F, 0x5E, 0x60, 0x7B, 0x7D])"

definition userinfo_set :: "char \<Rightarrow> bool" where
  "userinfo_set c =
     (path_set c \<or> (of_char c :: nat) \<in> set [0x2F, 0x3A, 0x3B, 0x3D, 0x40, 0x5B, 0x5C, 0x5D, 0x7C])"

definition percent_encode :: "(char \<Rightarrow> bool) \<Rightarrow> string \<Rightarrow> string" where
  "percent_encode in_set s = concat (map (\<lambda>c. if in_set c then percent_byte c else [c]) s)"

definition hex_value :: "char \<Rightarrow> nat option" where
  "hex_value c =
     map_of (zip ''0123456789abcdefABCDEF''
               [0, 1, 2, 3, 4, 5, 6, 7, 8, 9, 10, 11, 12, 13, 14, 15, 10, 11, 12, 13, 14, 15]) c"

text \<open>Percent-decoding: \<open>%XY\<close> with two hexadecimal digits is one byte, anything else stays.\<close>

fun percent_decode :: "string \<Rightarrow> string" where
  "percent_decode (p # a # b # s) =
     (if p = CHR ''%'' then
        (case hex_value a of
           None \<Rightarrow> p # percent_decode (a # b # s)
         | Some x \<Rightarrow>
             (case hex_value b of
                None \<Rightarrow> p # percent_decode (a # b # s)
              | Some y \<Rightarrow> char_of (16 * x + y) # percent_decode s))
      else p # percent_decode (a # b # s))"
| "percent_decode s = s"

text \<open>Outer \<open>None\<close>: failure. Inner \<open>None\<close>: no port, or the scheme's default port.\<close>

definition parse_port :: "string \<Rightarrow> string \<Rightarrow> nat option option" where
  "parse_port scheme p =
     (if \<not> list_all is_digit p then None
      else if p = [] then Some None
      else if digits_value p > 65535 then None
      else if default_port scheme = Some (digits_value p) then Some None
      else Some (Some (digits_value p)))"

text \<open>
  The IPv4 number parser: \<open>0x\<close> starts a hexadecimal number, another leading \<open>0\<close> an octal
  one; \<open>None\<close> is failure.
\<close>

definition radix_value :: "nat \<Rightarrow> string \<Rightarrow> nat option" where
  "radix_value r s =
     (if list_all (\<lambda>c. case hex_value c of None \<Rightarrow> False | Some v \<Rightarrow> v < r) s
      then Some (foldl (\<lambda>a c. r * a + (case hex_value c of None \<Rightarrow> 0 | Some v \<Rightarrow> v)) 0 s)
      else None)"

definition ipv4_number :: "string \<Rightarrow> nat option" where
  "ipv4_number s =
     (if s = [] then None
      else if 2 \<le> length s \<and> lower (take 2 s) = ''0x''
      then (if drop 2 s = [] then Some 0 else radix_value 16 (drop 2 s))
      else if 2 \<le> length s \<and> take 1 s = ''0'' then radix_value 8 (drop 1 s)
      else radix_value 10 s)"

definition ends_in_number :: "string \<Rightarrow> bool" where
  "ends_in_number h =
     (let parts = split CHR ''.'' h;
          parts' = (if last parts = [] then butlast parts else parts)
      in if parts' = [] then False
         else (last parts' \<noteq> [] \<and> list_all is_digit (last parts'))
              \<or> ipv4_number (last parts') \<noteq> None)"

definition ipv4_serialize :: "nat \<Rightarrow> string" where
  "ipv4_serialize n =
     decimal (n div 16777216) @ ''.'' @ decimal (n div 65536 mod 256) @ ''.''
     @ decimal (n div 256 mod 256) @ ''.'' @ decimal (n mod 256)"

definition ipv4_parse :: "string \<Rightarrow> string option" where
  "ipv4_parse h =
     (let parts = split CHR ''.'' h;
          parts' = (if last parts = [] \<and> 1 < length parts then butlast parts else parts);
          ns = map ipv4_number parts';
          vs = map (\<lambda>n. case n of None \<Rightarrow> 0 | Some v \<Rightarrow> v) ns
      in if 4 < length parts' then None
         else if list_ex (\<lambda>n. n = None) ns then None
         else if list_ex (\<lambda>v. 255 < v) (butlast vs) then None
         else if 256 ^ (5 - length vs) \<le> last vs then None
         else Some (ipv4_serialize
                      (last vs
                       + sum_list (map (\<lambda>(i, v). v * 256 ^ (3 - i))
                                       (zip [0 ..< length vs - 1] (butlast vs))))))"

text \<open>
  The forbidden domain code points: the C0 controls, the space, \<open>#\<close>, \<open>%\<close>, \<open>/\<close>, \<open>:\<close>, \<open><\<close>,
  \<open>>\<close>, \<open>?\<close>, \<open>@\<close>, \<open>[\<close>, \<open>\\<close>, \<open>]\<close>, \<open>^\<close>, \<open>|\<close> and DEL.
\<close>

definition forbidden_domain_byte :: "char \<Rightarrow> bool" where
  "forbidden_domain_byte c =
     ((of_char c :: nat) \<le> 32
      \<or> (of_char c :: nat) \<in> set [0x23, 0x25, 0x2F, 0x3A, 0x3C, 0x3E, 0x3F, 0x40,
                                     0x5B, 0x5C, 0x5D, 0x5E, 0x7C, 0x7F])"

definition parse_host :: "string \<Rightarrow> string option" where
  "parse_host h =
     (let domain = lower (percent_decode h)
      in if domain = [] then None
         else if list_ex (\<lambda>c. 128 \<le> (of_char c :: nat)) domain then None
         else if list_ex forbidden_domain_byte domain then None
         else if ends_in_number domain then ipv4_parse domain
         else Some domain)"

text \<open>
  The path state: the text is cut at slashes and backslashes; \<open>..\<close> (also written with
  \<open>%2e\<close>) drops the last segment kept so far, \<open>.\<close> is dropped, and either of them as the
  last segment leaves an empty segment behind.
\<close>

fun split_where :: "(char \<Rightarrow> bool) \<Rightarrow> string \<Rightarrow> string list" where
  "split_where P [] = [[]]"
| "split_where P (x # xs) =
     (if P x then [] # split_where P xs
      else (case split_where P xs of
              [] \<Rightarrow> [[x]]
            | y # ys \<Rightarrow> (x # y) # ys))"

definition is_single_dot :: "string \<Rightarrow> bool" where
  "is_single_dot seg = (lower seg \<in> set [''.'', ''%2e''])"

definition is_double_dot :: "string \<Rightarrow> bool" where
  "is_double_dot seg = (lower seg \<in> set [''..'', ''.%2e'', ''%2e.'', ''%2e%2e''])"

fun path_segments :: "string list \<Rightarrow> string list \<Rightarrow> string list" where
  "path_segments acc [] = acc"
| "path_segments acc (seg # rest) =
     (if is_double_dot seg
      then path_segments (butlast acc @ (if rest = [] then [[]] else [])) rest
      else if is_single_dot seg
      then path_segments (acc @ (if rest = [] then [[]] else [])) rest
      else path_segments (acc @ [percent_encode path_set seg]) rest)"

definition parse_path :: "string \<Rightarrow> string" where
  "parse_path t =
     concat (map (\<lambda>seg. CHR ''/'' # seg)
               (path_segments []
                  (split_where is_slash (if t \<noteq> [] \<and> is_slash (hd t) then tl t else t))))"

text \<open>Path, query and fragment of what follows the authority, or of the whole input.\<close>

definition parse_tail :: "string \<Rightarrow> string \<times> string option \<times> string option" where
  "parse_tail t =
     (let pq = before_first CHR ''#'' t
      in (parse_path (before_first CHR ''?'' pq),
          map_option (percent_encode special_query_set) (after_first CHR ''?'' pq),
          map_option (percent_encode fragment_set) (after_first CHR ''#'' t)))"

definition parse_authority :: "string \<Rightarrow> string \<Rightarrow> url option" where
  "parse_authority scheme r =
     (let authority = takeWhile (\<lambda>c. \<not> authority_end c) r;
          tail = dropWhile (\<lambda>c. \<not> authority_end c) r;
          at_seen = (CHR ''@'' \<in> set authority);
          hostport = rev (before_first CHR ''@'' (rev authority));
          userinfo = (if at_seen then rev (tl (dropWhile (\<lambda>c. c \<noteq> CHR ''@'') (rev authority)))
                      else []);
          port_text = (case after_first CHR '':'' hostport of None \<Rightarrow> [] | Some p \<Rightarrow> p)
      in case parse_host (before_first CHR '':'' hostport) of
           None \<Rightarrow> None
         | Some h \<Rightarrow>
             (case parse_port scheme port_text of
                None \<Rightarrow> None
              | Some port \<Rightarrow>
                  (case parse_tail tail of
                     (p, q, f) \<Rightarrow>
                       Some \<lparr> url_scheme = scheme,
                              url_username =
                                percent_encode userinfo_set (before_first CHR '':'' userinfo),
                              url_password =
                                (case after_first CHR '':'' userinfo of
                                   None \<Rightarrow> []
                                 | Some w \<Rightarrow> percent_encode userinfo_set w),
                              url_hostname = h,
                              url_port = port,
                              url_pathname = p,
                              url_query = q,
                              url_fragment = f \<rparr>)))"

definition URL_new :: "string \<Rightarrow> url \<Rightarrow> url option" where
  "URL_new input base =
     (if \<not> is_special (url_scheme base) then None
      else case url_preprocess input of
             [] \<Rightarrow> None
           | c0 # rest \<Rightarrow>
               if c0 \<noteq> CHR ''/'' then None
               else if rest \<noteq> [] \<and> is_slash (hd rest)
               then parse_authority (url_scheme base) (dropWhile is_slash rest)
               else (case parse_tail (c0 # rest) of
                       (p, q, f) \<Rightarrow>
                         Some (base\<lparr> url_pathname := p, url_query := q, url_fragment := f \<rparr>)))"

text \<open>
  The specification's words, "the identity provider's origin": the origin of a URL string
  is its scheme, \<open>://\<close> and its host with its port, that is, what stands between the
  credentials and the first \<open>/\<close>, \<open>?\<close> or \<open>#\<close> of what follows \<open>://\<close>. A string without
  \<open>scheme://\<close> has none.
\<close>

definition url_origin :: "string \<Rightarrow> string option" where
  "url_origin s =
     (let scheme = before_first CHR '':'' s;
          rest = drop (length scheme) s;
          authority = takeWhile (\<lambda>c. \<not> authority_end c) (drop 3 rest)
      in if scheme \<noteq> [] \<and> take 3 rest = ''://''
         then Some (scheme @ ''://'' @ rev (before_first CHR ''@'' (rev authority)))
         else None)"

subsection \<open>\<open>editUrl\<close> as the specification describes its use\<close>

text \<open>
  Modelled from the spec: \<open>editUrl\<close> of \<open>url.js\<close> is not part of the sources at hand. The
  specification has the login URL "reconstructed with hostname \<open>auth.<base>\<close>, the same
  \<open>env\<close>, and the same \<open>returnPath\<close>", with query \<open>env=known&returnPath=rel\<close>: the given
  hostname and path replace those of the URL, the given parameters become its query
  string in form encoding. The theorems below hold for every \<open>editUrl\<close>; this one serves
  where a concrete one is evaluated.
\<close>

definition form_byte :: "char \<Rightarrow> string" where
  "form_byte c =
     (if is_alnum c \<or> c \<in> set ''*-._'' then [c]
      else if c = CHR '' '' then ''+''
      else percent_byte c)"

definition form_urlencoded :: "(string \<times> string) list \<Rightarrow> string" where
  "form_urlencoded ps =
     concat (map (\<lambda>(i, kv). (if i = 0 then [] else ''&'')
                            @ concat (map form_byte (fst kv)) @ ''=''
                            @ concat (map form_byte (snd kv)))
                 (zip [0 ..< length ps] ps))"

definition editUrl_spec :: "url \<Rightarrow> url_edit \<Rightarrow> url" where
  "editUrl_spec u e =
     u\<lparr> url_hostname := (case edit_hostname e of
                            None \<Rightarrow> url_hostname u
                          | Some h \<Rightarrow> if h \<noteq> [] then h else url_hostname u),
        url_pathname := (case edit_path e of
                            None \<Rightarrow> url_pathname u
                          | Some p \<Rightarrow> if p \<noteq> [] then p else url_pathname u),
        url_query := (case edit_queryParams e of
                         None \<Rightarrow> url_query u
                       | Some ps \<Rightarrow> if ps \<noteq> [] then Some (form_urlencoded ps) else url_query u) \<rparr>"

subsection \<open>A concrete gateway\<close>

text \<open>
  A gateway at \<open>https://tunnel.example\<close> with one tunnel \<open>known\<close>, whose authenticator
  accepts a request that carries the header \<open>authorization: good\<close>, and whose session
  store finds the claims of a request that carries the header \<open>cookie: session\<close>.
\<close>

definition example_base :: url where
  "example_base =
     \<lparr> url_scheme = ''https'', url_username = [], url_password = [],
       url_hostname = ''tunnel.example'', url_port = None, url_pathname = ''/'',
       url_query = None, url_fragment = None \<rparr>"

definition example_tunnel :: tunnel where
  "example_tunnel =
     \<lparr> envId = ''known'', hostname = ''known.tunnel.example'', publicKey = ''pk'',
       publicKeyThumbprint = ''thumb'', access = ''private'', meta = ''{}'' \<rparr>"

definition example_deps :: "save_kind \<Rightarrow> string option \<Rightarrow> deps" where
  "example_deps k saas =
     \<lparr> baseUrl = example_base,
       saasBaseUrl = saas,
       activeTunnelStore_get = (\<lambda>e. if e = ''known'' then Some example_tunnel else None),
       activeTunnelStore_getByPkThumbprint =
         (\<lambda>p. if p = ''thumb'' then Some [example_tunnel] else None),
       sessionStore =
         (\<lambda>r t. if map_of (req_headers r) ''cookie'' = Some ''session''
                 then Some (Claims ''alice'') else None),
       session_save = k,
       authFactory =
         (\<lambda>t r. if map_of (req_headers r) ''authorization'' = Some ''good''
                 then Authenticated (Claims ''alice'') else Unauthenticated),
       routeRequest = (\<lambda>r. if headers_host r = Some ''known.tunnel.example'' then Some 1 else None),
       routeUpgrade = (\<lambda>r. if headers_host r = Some ''known.tunnel.example'' then Some 2 else None),
       editUrl = editUrl_spec,
       newURL = URL_new \<rparr>"

definition example_request :: "(string \<times> string) list \<Rightarrow> raw_request" where
  "example_request hs = \<lparr> req_method = ''GET'', req_url = ''/login'', req_headers = hs \<rparr>"

definition example_login :: "(string \<times> string) list \<Rightarrow> string \<Rightarrow> string option \<Rightarrow> login_request" where
  "example_login hs env rp = \<lparr> raw = example_request hs, query_env = env, query_returnPath = rp \<rparr>"

section \<open>Properties\<close>

subsection \<open>Classifier and dispatcher\<close>


lemma first_elem_split:
  "first_elem (split c s) = Some (before_first c s)"
  by (induction s) (auto simp: first_elem_def before_first_def split: list.splits)

lemma isNonProxyRequest_unfold:
  "isNonProxyRequest base req =
     (case headers_host req of
        None \<Rightarrow> False
      | Some h \<Rightarrow> before_first CHR '':'' h = ''auth.'' @ base
                 \<or> before_first CHR '':'' h = ''api.'' @ base)"
  by (simp add: isNonProxyRequest_def Let_def first_elem_split
        authHostname_def apiHostname_def split: option.splits)

text \<open>
  Where stripping the port suffix leaves no colon behind (a host without colons, with or
  without a port), the text before the first colon is the host with its port stripped.
\<close>

lemma before_first_colon_is_stripped_host:
  assumes "CHR '':'' \<notin> set (strip_port_suffix h)"
  shows "before_first CHR '':'' h = strip_port_suffix h"
proof -
  define ds where "ds = takeWhile is_digit (rev h)"
  have whole: "strip_port_suffix h = h \<Longrightarrow> ?thesis"
    using assms by (auto simp: before_first_def)
  show ?thesis
  proof (cases "dropWhile is_digit (rev h)")
    case Nil
    have "strip_port_suffix h = h" unfolding strip_port_suffix_def Nil by simp
    then show ?thesis by (rule whole)
  next
    case (Cons c r)
    show ?thesis
    proof (cases "c = CHR '':''")
      case False
      with Cons have "strip_port_suffix h = h" by (simp add: strip_port_suffix_def)
      then show ?thesis by (rule whole)
    next
      case True
      with Cons have s: "strip_port_suffix h = rev r" by (simp add: strip_port_suffix_def)
      have "rev h = ds @ dropWhile is_digit (rev h)" by (simp add: ds_def)
      with Cons True have "rev h = ds @ CHR '':'' # r" by simp
      then have "h = rev (ds @ CHR '':'' # r)" by (metis rev_rev_ident)
      then have h: "h = rev r @ CHR '':'' # rev ds" by simp
      have "\<forall>x\<in>set r. x \<noteq> CHR '':''"
        using assms s by auto
      then have "takeWhile (\<lambda>x. x \<noteq> CHR '':'') (rev r @ CHR '':'' # rev ds) = rev r"
        by (simp add: takeWhile_tail takeWhile_eq_all_conv)
      with h s show ?thesis by (simp add: before_first_def)
    qed
  qed
qed

text \<open>
  Claim C3, amended. A request is control-plane traffic exactly when its \<open>Host\<close> header is
  present and the text before its first colon equals \<open>auth.<base>\<close> or \<open>api.<base>\<close>; for a
  \<open>Host\<close> value that is a host without colons, with or without a port suffix, that text
  is the host with the port stripped. Everything else is tunnel traffic, a missing header
  included. The classifier is a total function with these two values; it has no failing
  branch.
\<close>

theorem hostname_classifier_first_colon:
  "classify base req =
     (case headers_host req of
        None \<Rightarrow> Tunnel_traffic
      | Some h \<Rightarrow>
          if before_first CHR '':'' h = ''auth.'' @ base
             \<or> before_first CHR '':'' h = ''api.'' @ base
          then Control_plane_traffic else Tunnel_traffic)
   \<and> (headers_host req = Some h \<and> CHR '':'' \<notin> set (strip_port_suffix h) \<longrightarrow>
        (classify base req = Control_plane_traffic)
          = (strip_port_suffix h = ''auth.'' @ base \<or> strip_port_suffix h = ''api.'' @ base))"
proof -
  have a: "classify base req =
     (case headers_host req of
        None \<Rightarrow> Tunnel_traffic
      | Some h \<Rightarrow>
          if before_first CHR '':'' h = ''auth.'' @ base
             \<or> before_first CHR '':'' h = ''api.'' @ base
          then Control_plane_traffic else Tunnel_traffic)"
    by (simp add: classify_def isNonProxyRequest_unfold split: option.splits)
  have b: "(classify base req = Control_plane_traffic)
             = (strip_port_suffix h = ''auth.'' @ base \<or> strip_port_suffix h = ''api.'' @ base)"
    if "headers_host req = Some h" and "CHR '':'' \<notin> set (strip_port_suffix h)"
    using that a before_first_colon_is_stripped_host [of h] by simp
  from a b show ?thesis by blast
qed

theorem hostname_classifier_first_colon_witness:
  "classify ''tunnel.example'' (example_request [(''host'', ''auth.tunnel.example:8443'')])
     = Control_plane_traffic
   \<and> strip_port_suffix ''auth.tunnel.example:8443'' = ''auth.tunnel.example''
   \<and> classify ''tunnel.example'' (example_request [(''host'', ''api.tunnel.example'')])
     = Control_plane_traffic
   \<and> classify ''tunnel.example'' (example_request [(''host'', ''known.tunnel.example:8443'')])
     = Tunnel_traffic
   \<and> classify ''tunnel.example'' (example_request [(''host'', ''auth.tunnel.example.evil'')])
     = Tunnel_traffic
   \<and> classify ''tunnel.example'' (example_request []) = Tunnel_traffic"
proof -
  let ?port = "example_request [(''host'', ''auth.tunnel.example:8443'')]"
  have h: "headers_host ?port = Some ''auth.tunnel.example:8443''"
    by (simp add: headers_host_def example_request_def)
  have s: "strip_port_suffix ''auth.tunnel.example:8443'' = ''auth.tunnel.example''"
    by code_simp
  have c: "CHR '':'' \<notin> set (strip_port_suffix ''auth.tunnel.example:8443'')"
    by (simp add: s)
  from hostname_classifier_first_colon [of "''tunnel.example''" ?port "''auth.tunnel.example:8443''"]
       h c s
  have first: "classify ''tunnel.example'' ?port = Control_plane_traffic"
    by (simp add: before_first_def)
  from hostname_classifier_first_colon [of "''tunnel.example''"
          "example_request [(''host'', ''api.tunnel.example'')]" "[]"]
       hostname_classifier_first_colon [of "''tunnel.example''"
          "example_request [(''host'', ''known.tunnel.example:8443'')]" "[]"]
       hostname_classifier_first_colon [of "''tunnel.example''"
          "example_request [(''host'', ''auth.tunnel.example.evil'')]" "[]"]
       hostname_classifier_first_colon [of "''tunnel.example''" "example_request []" "[]"]
  have rest:
    "classify ''tunnel.example'' (example_request [(''host'', ''api.tunnel.example'')])
       = Control_plane_traffic
     \<and> classify ''tunnel.example'' (example_request [(''host'', ''known.tunnel.example:8443'')])
       = Tunnel_traffic
     \<and> classify ''tunnel.example'' (example_request [(''host'', ''auth.tunnel.example.evil'')])
       = Tunnel_traffic
     \<and> classify ''tunnel.example'' (example_request []) = Tunnel_traffic"
    by (simp add: headers_host_def example_request_def before_first_def)
  from first s rest show ?thesis by simp
qed

text \<open>
  Claim C3, as it is worded, has the \<open>Host\<close> value compared after stripping a port suffix,
  and every malformed value classified as tunnel traffic. These two values have no port
  suffix to strip that would leave \<open>auth.<base>\<close> or \<open>api.<base>\<close>, and are control-plane
  traffic all the same: the code cuts at the first colon, whatever follows it.
\<close>

theorem hostname_classifier_malformed_port:
  "strip_port_suffix ''auth.tunnel.example:not-a-port'' = ''auth.tunnel.example:not-a-port''
   \<and> classify ''tunnel.example''
        (example_request [(''host'', ''auth.tunnel.example:not-a-port'')])
     = Control_plane_traffic
   \<and> strip_port_suffix ''api.tunnel.example:1:2'' = ''api.tunnel.example:1''
   \<and> classify ''tunnel.example'' (example_request [(''host'', ''api.tunnel.example:1:2'')])
     = Control_plane_traffic"
proof -
  have "strip_port_suffix ''auth.tunnel.example:not-a-port'' = ''auth.tunnel.example:not-a-port''"
    and "strip_port_suffix ''api.tunnel.example:1:2'' = ''api.tunnel.example:1''"
    by code_simp+
  moreover have
    "classify ''tunnel.example''
        (example_request [(''host'', ''auth.tunnel.example:not-a-port'')])
       = Control_plane_traffic"
    and "classify ''tunnel.example'' (example_request [(''host'', ''api.tunnel.example:1:2'')])
       = Control_plane_traffic"
    by (simp_all add: classify_def isNonProxyRequest_unfold headers_host_def
          example_request_def before_first_def)
  ultimately show ?thesis by simp
qed

lemma socket_output_not_found:
  "socket_output [Log_debug a, Log_warn b, Socket_end s] = s"
  "socket_output [Log_debug a, Route_upgrade r, Log_warn b, Socket_end s] = s"
  by simp_all

text \<open>
  Claim C5. On an upgrade request with a control-plane host the proxy's \<open>routeUpgrade\<close> is
  never invoked. On an upgrade request the proxy does not claim, the dispatcher's last
  act is to end the raw socket with the payload \<open>Not found\<close>: that payload is all the
  socket receives, it is no HTTP status line, and the control plane's HTTP pipeline is
  not entered.
\<close>

theorem upgrade_control_plane_and_decline:
  "(isNonProxyRequest (url_hostname (baseUrl d)) req \<longrightarrow>
      \<not> list_ex is_route_upgrade (on_upgrade d req))
   \<and> (routeUpgrade d req = None \<longrightarrow>
        socket_output (on_upgrade d req) = ''Not found''
        \<and> last (on_upgrade d req) = Socket_end ''Not found''
        \<and> \<not> startsWith (socket_output (on_upgrade d req)) ''HTTP/''
        \<and> \<not> list_ex is_control_plane (on_upgrade d req))"
  by (simp add: on_upgrade_def startsWith_def)


theorem upgrade_control_plane_and_decline_witness:
  "isNonProxyRequest (url_hostname (baseUrl (example_deps Save_synchronous None)))
      (example_request [(''host'', ''auth.tunnel.example'')])
   \<and> \<not> list_ex is_route_upgrade
        (on_upgrade (example_deps Save_synchronous None)
           (example_request [(''host'', ''auth.tunnel.example'')]))
   \<and> routeUpgrade (example_deps Save_synchronous None)
        (example_request [(''host'', ''gone.tunnel.example'')]) = None
   \<and> on_upgrade (example_deps Save_synchronous None)
        (example_request [(''host'', ''gone.tunnel.example'')])
       = [Log_debug ''upgrade'',
          Route_upgrade (example_request [(''host'', ''gone.tunnel.example'')]),
          Log_warn ''upgrade request not found'',
          Socket_end ''Not found'']"
proof -
  let ?d = "example_deps Save_synchronous None"
  let ?cp = "example_request [(''host'', ''auth.tunnel.example'')]"
  let ?gone = "example_request [(''host'', ''gone.tunnel.example'')]"
  have cp: "isNonProxyRequest (url_hostname (baseUrl ?d)) ?cp"
    by (simp add: isNonProxyRequest_unfold example_deps_def example_base_def
          example_request_def headers_host_def before_first_def)
  have declined: "routeUpgrade ?d ?gone = None"
    by (simp add: example_deps_def example_request_def headers_host_def)
  have not_cp: "\<not> isNonProxyRequest (url_hostname (baseUrl ?d)) ?gone"
    by (simp add: isNonProxyRequest_unfold example_deps_def example_base_def
          example_request_def headers_host_def before_first_def)
  from upgrade_control_plane_and_decline [of ?d ?cp] cp
  have "\<not> list_ex is_route_upgrade (on_upgrade ?d ?cp)" by blast
  moreover have "on_upgrade ?d ?gone
       = [Log_debug ''upgrade'', Route_upgrade ?gone,
          Log_warn ''upgrade request not found'', Socket_end ''Not found'']"
    using not_cp declined by (simp add: on_upgrade_def)
  ultimately show ?thesis using cp declined by simp
qed

lemma length_lower: "length (lower s) = length s"
  by (simp add: lower_def)

lemma lower_append: "lower (a @ b) = lower a @ lower b"
  by (simp add: lower_def)

lemma lower_auth: "lower ''auth.'' = ''auth.''"
  by (simp add: lower_def ascii_lower_def)

lemma lower_api: "lower ''api.'' = ''api.''"
  by (simp add: lower_def ascii_lower_def)

lemma takeWhile_full_length:
  assumes "takeWhile P h = a" and "length h = length a"
  shows "h = a"
proof -
  have "length (takeWhile P h) + length (dropWhile P h) = length h"
    by (metis length_append takeWhile_dropWhile_id)
  with assms have "dropWhile P h = []" by simp
  then have "takeWhile P h = h"
    by (metis append_Nil2 takeWhile_dropWhile_id)
  with assms show ?thesis by simp
qed

lemma case_variant_not_matched:
  assumes "(h \<noteq> ''auth.'' @ base \<and> lower h = lower (''auth.'' @ base))
           \<or> (h \<noteq> ''api.'' @ base \<and> lower h = lower (''api.'' @ base))"
  shows "before_first CHR '':'' h \<noteq> ''auth.'' @ base \<and> before_first CHR '':'' h \<noteq> ''api.'' @ base"
  using assms
proof (elim disjE conjE)
  assume ne: "h \<noteq> ''auth.'' @ base" and lo: "lower h = lower (''auth.'' @ base)"
  from lo have len: "length h = length (''auth.'' @ base)"
    by (metis length_lower)
  have a: "before_first CHR '':'' h \<noteq> ''auth.'' @ base"
    using takeWhile_full_length [OF _ len] ne by (auto simp: before_first_def)
  have b: "before_first CHR '':'' h \<noteq> ''api.'' @ base"
  proof
    assume eq: "before_first CHR '':'' h = ''api.'' @ base"
    have "h = before_first CHR '':'' h @ dropWhile (\<lambda>c. c \<noteq> CHR '':'') h"
      by (simp add: before_first_def)
    with eq have "h = ''api.'' @ base @ dropWhile (\<lambda>c. c \<noteq> CHR '':'') h" by simp
    then have "lower h = ''api.'' @ lower (base @ dropWhile (\<lambda>c. c \<noteq> CHR '':'') h)"
      by (metis lower_append lower_api)
    moreover have "lower (''auth.'' @ base) = ''auth.'' @ lower base"
      by (metis lower_append lower_auth)
    ultimately have "''api.'' @ lower (base @ dropWhile (\<lambda>c. c \<noteq> CHR '':'') h)
                     = ''auth.'' @ lower base"
      using lo by simp
    then show False by simp
  qed
  from a b show ?thesis by simp
next
  assume ne: "h \<noteq> ''api.'' @ base" and lo: "lower h = lower (''api.'' @ base)"
  from lo have len: "length h = length (''api.'' @ base)"
    by (metis length_lower)
  have b: "before_first CHR '':'' h \<noteq> ''api.'' @ base"
    using takeWhile_full_length [OF _ len] ne by (auto simp: before_first_def)
  have a: "before_first CHR '':'' h \<noteq> ''auth.'' @ base"
  proof
    assume eq: "before_first CHR '':'' h = ''auth.'' @ base"
    have "length (before_first CHR '':'' h) \<le> length h"
      by (simp add: before_first_def length_takeWhile_le)
    with eq len show False by simp
  qed
  from a b show ?thesis by simp
qed

text \<open>
  Claim C10, amended. The comparison is exact and case-sensitive: a \<open>Host\<close> value that
  differs from \<open>auth.<base>\<close> or from \<open>api.<base>\<close> only in letter case (such as
  \<open>AUTH.<base>\<close>) is tunnel traffic. Such a request, and such an upgrade, is offered to
  the proxy first: after the log line the dispatcher calls \<open>routeRequest\<close>
  (\<open>routeUpgrade\<close>), and then either the handler the proxy returned runs, or, when the
  proxy declines, the control plane's router handles the request (the socket of the
  upgrade is ended).
\<close>

theorem host_match_is_case_sensitive:
  assumes "headers_host req = Some h"
      and "(h \<noteq> ''auth.'' @ url_hostname (baseUrl d)
              \<and> lower h = lower (''auth.'' @ url_hostname (baseUrl d)))
           \<or> (h \<noteq> ''api.'' @ url_hostname (baseUrl d)
              \<and> lower h = lower (''api.'' @ url_hostname (baseUrl d)))"
  shows "classify (url_hostname (baseUrl d)) req = Tunnel_traffic
         \<and> on_request d req =
             (if req_url req \<noteq> ''/healthz'' then [Log_debug ''request''] else [])
             @ [Route_request req,
                (case routeRequest d req of
                   Some ph \<Rightarrow> Proxy_handler ph req
                 | None \<Rightarrow> Control_plane req)]
         \<and> on_upgrade d req =
             [Log_debug ''upgrade'', Route_upgrade req]
             @ (case routeUpgrade d req of
                  Some ph \<Rightarrow> [Proxy_upgrade_handler ph req]
                | None \<Rightarrow> [Log_warn ''upgrade request not found'', Socket_end ''Not found''])"
proof -
  from case_variant_not_matched [OF assms(2)] assms(1)
  have np: "\<not> isNonProxyRequest (url_hostname (baseUrl d)) req"
    by (simp add: isNonProxyRequest_unfold)
  then show ?thesis
    by (simp add: classify_def on_request_def on_upgrade_def split: option.splits)
qed

theorem host_match_is_case_sensitive_witness:
  "classify ''tunnel.example'' (example_request [(''host'', ''AUTH.tunnel.example'')])
     = Tunnel_traffic
   \<and> on_upgrade (example_deps Save_synchronous None)
        (example_request [(''host'', ''AUTH.tunnel.example'')])
     = [Log_debug ''upgrade'',
        Route_upgrade (example_request [(''host'', ''AUTH.tunnel.example'')]),
        Log_warn ''upgrade request not found'', Socket_end ''Not found'']"
proof -
  let ?d = "example_deps Save_synchronous None"
  let ?r = "example_request [(''host'', ''AUTH.tunnel.example'')]"
  have base: "url_hostname (baseUrl ?d) = ''tunnel.example''"
    by (simp add: example_deps_def example_base_def)
  have h: "headers_host ?r = Some ''AUTH.tunnel.example''"
    by (simp add: headers_host_def example_request_def)
  have v: "(''AUTH.tunnel.example'' \<noteq> ''auth.'' @ url_hostname (baseUrl ?d)
              \<and> lower ''AUTH.tunnel.example'' = lower (''auth.'' @ url_hostname (baseUrl ?d)))
           \<or> (''AUTH.tunnel.example'' \<noteq> ''api.'' @ url_hostname (baseUrl ?d)
              \<and> lower ''AUTH.tunnel.example'' = lower (''api.'' @ url_hostname (baseUrl ?d)))"
    by (simp add: base lower_def ascii_lower_def)
  have n: "routeUpgrade ?d ?r = None"
    by (simp add: example_deps_def h)
  from host_match_is_case_sensitive [OF h v] n show ?thesis
    by (simp add: base)
qed

text \<open>
  Claim C10, as it is worded, has such a request "offered to the proxy rather than handled
  by the control plane". Here the proxy declines the request with host
  \<open>AUTH.tunnel.example\<close>, and the dispatcher hands it to the control plane's router.
\<close>

theorem host_match_offered_then_fallback:
  "headers_host (example_request [(''host'', ''AUTH.tunnel.example'')])
     = Some ''AUTH.tunnel.example''
   \<and> lower ''AUTH.tunnel.example'' = lower (''auth.'' @ ''tunnel.example'')
   \<and> routeRequest (example_deps Save_synchronous None)
        (example_request [(''host'', ''AUTH.tunnel.example'')]) = None
   \<and> on_request (example_deps Save_synchronous None)
        (example_request [(''host'', ''AUTH.tunnel.example'')])
       = [Log_debug ''request'',
          Route_request (example_request [(''host'', ''AUTH.tunnel.example'')]),
          Control_plane (example_request [(''host'', ''AUTH.tunnel.example'')])]"
proof -
  let ?d = "example_deps Save_synchronous None"
  let ?r = "example_request [(''host'', ''AUTH.tunnel.example'')]"
  have h: "headers_host ?r = Some ''AUTH.tunnel.example''"
    by (simp add: headers_host_def example_request_def)
  have l: "lower ''AUTH.tunnel.example'' = lower (''auth.'' @ ''tunnel.example'')"
    by (simp add: lower_def ascii_lower_def)
  have n: "routeRequest ?d ?r = None"
    by (simp add: example_deps_def h)
  have "\<not> isNonProxyRequest (url_hostname (baseUrl ?d)) ?r"
    by (simp add: isNonProxyRequest_unfold h before_first_def example_deps_def
          example_base_def)
  then have "on_request ?d ?r = [Log_debug ''request'', Route_request ?r, Control_plane ?r]"
    using n by (simp add: on_request_def) (simp add: example_request_def)
  with h l n show ?thesis by simp
qed

subsection \<open>The login handler\<close>


lemma login_unfold:
  "login d req =
     (if \<not> startsWith (returnPath_of req) ''/'' then
        \<lparr> reply = Inr (json_error 400 ''returnPath must be a relative path''),
          effects = [], session_at_reply = None \<rparr>
      else case activeTunnelStore_get d (query_env req) of
        None \<Rightarrow>
          \<lparr> reply = Inr (json_error 404 ''unknown envId''),
            effects = [Store_get (query_env req)], session_at_reply = None \<rparr>
      | Some t \<Rightarrow>
          (case sessionStore d (raw req) (publicKeyThumbprint t) of
             Some c \<Rightarrow>
               \<lparr> reply = redirect_to_tenant d (query_env req) (returnPath_of req),
                 effects = [Store_get (query_env req), Session_open (publicKeyThumbprint t)],
                 session_at_reply = Some (session_open (Some c)) \<rparr>
           | None \<Rightarrow>
               (case authFactory d t (raw req) of
                  Unauthenticated \<Rightarrow>
                    \<lparr> reply =
                        (case saasBaseUrl d of
                           None \<Rightarrow> Inr (json_error 401 ''Unauthorized'')
                         | Some saas \<Rightarrow>
                             if saas \<noteq> []
                             then Inr (redirect_to_idp d saas (query_env req) (returnPath_of req))
                             else Inr (json_error 401 ''Unauthorized'')),
                      effects = [Store_get (query_env req), Session_open (publicKeyThumbprint t),
                                 Auth_build t, Auth_invoke t],
                      session_at_reply = Some (session_open None) \<rparr>
                | Authenticated c \<Rightarrow>
                    \<lparr> reply = redirect_to_tenant d (query_env req) (returnPath_of req),
                      effects = [Store_get (query_env req), Session_open (publicKeyThumbprint t),
                                 Auth_build t, Auth_invoke t, Session_set c, Session_save],
                      session_at_reply =
                        Some (session_save_call (session_save d)
                                (session_set c (session_open None))) \<rparr>)))"
  by (simp add: login_def Let_def session_open_def
           split: option.splits auth_result.splits)

lemma login_auth_invoked:
  assumes "Auth_invoke t \<in> set (effects (login d req))"
  shows "startsWith (returnPath_of req) ''/''
         \<and> activeTunnelStore_get d (query_env req) = Some t
         \<and> sessionStore d (raw req) (publicKeyThumbprint t) = None"
  using assms
  by (auto simp: login_unfold split: if_splits option.splits auth_result.splits)

lemma startsWith_slash_nonempty: "startsWith p ''/'' \<Longrightarrow> p \<noteq> []"
  by (auto simp: startsWith_def)

lemma hex_digits_alnum: "list_all (\<lambda>k. is_alnum (digit_char k)) [0 ..< 16]"
  by code_simp

lemma hex_digit_alnum: "is_alnum (digit_char n)"
proof -
  have "n mod 16 \<in> set [0 ..< 16]" by simp
  with hex_digits_alnum have "is_alnum (digit_char (n mod 16))"
    unfolding list_all_iff by blast
  then show ?thesis by (simp add: digit_char_def)
qed

lemma encodeURIComponent_bytes:
  "list_all (\<lambda>c. uri_unreserved c \<or> c = CHR ''%'') (encodeURIComponent s)"
  by (induction s)
     (auto simp: encodeURIComponent_def percent_byte_def uri_unreserved_def hex_digit_alnum)

lemma example_get_known:
  "activeTunnelStore_get (example_deps k saas) ''known'' = Some example_tunnel"
  "activeTunnelStore_get (example_deps k saas) ''unknown'' = None"
  by (simp_all add: example_deps_def)

lemma example_returnPath:
  "returnPath_of (example_login hs env (Some p)) = p"
  "returnPath_of (example_login hs env None) = ''/''"
  "query_env (example_login hs env rp) = env"
  by (simp_all add: returnPath_of_def example_login_def)

lemma example_session:
  "sessionStore (example_deps k saas) (raw (example_login [(''cookie'', ''session'')] env rp)) th
     = Some (Claims ''alice'')"
  "sessionStore (example_deps k saas) (raw (example_login [] env rp)) th = None"
  "sessionStore (example_deps k saas) (raw (example_login [(''authorization'', ''good'')] env rp)) th
     = None"
  by (simp_all add: example_deps_def example_login_def example_request_def)

lemma example_auth:
  "authFactory (example_deps k saas) t (raw (example_login [(''authorization'', ''good'')] env rp))
     = Authenticated (Claims ''alice'')"
  "authFactory (example_deps k saas) t (raw (example_login [] env rp)) = Unauthenticated"
  by (simp_all add: example_deps_def example_login_def example_request_def)

lemma example_saas:
  "saasBaseUrl (example_deps k saas) = saas"
  by (simp add: example_deps_def)

text \<open>
  Claim C4, amended. When the login handler invokes the authenticator of the resolved
  tunnel, the session holding no user, and the authenticator returns unauthenticated
  while a secondary identity-provider base URL is configured, the reply is a redirect
  (302) to \<open><saasBaseUrl>/api/auth/login?redirectTo=...\<close>. The parameter is
  \<open>encodeURIComponent\<close> of the gateway's login URL, which is the base URL edited to
  hostname \<open>auth.<base>\<close>, path \<open>/login\<close> and query parameters \<open>env\<close> and \<open>returnPath\<close> with
  the request's own values. The reply carries \<open>Access-Control-Allow-Origin\<close> with the
  configured identity-provider base URL as its value, as it is configured; that value
  is the identity provider's origin when the base URL is configured as a bare origin.
\<close>

theorem login_unauthenticated_redirects_to_idp:
  assumes "Auth_invoke t \<in> set (effects (login d req))"
      and "sessionStore d (raw req) (publicKeyThumbprint t) = None"
      and "authFactory d t (raw req) = Unauthenticated"
      and "saasBaseUrl d = Some saas" and "saas \<noteq> []"
  shows "reply (login d req) =
           Inr \<lparr> statusCode = 302,
                 res_headers =
                   [(''Access-Control-Allow-Origin'', saas),
                    (''location'',
                     saas @ ''/api/auth/login?redirectTo=''
                       @ encodeURIComponent
                           (URL_toString
                              (editUrl d (baseUrl d)
                                 \<lparr> edit_hostname = Some (''auth.'' @ url_hostname (baseUrl d)),
                                   edit_queryParams =
                                     Some [(''env'', query_env req),
                                           (''returnPath'', returnPath_of req)],
                                   edit_path = Some ''/login'' \<rparr>)))],
                 body = No_body \<rparr>
         \<and> (url_origin saas = Some saas \<longrightarrow>
              (case reply (login d req) of
                 Inl e \<Rightarrow> False
               | Inr r \<Rightarrow> map_of (res_headers r) ''Access-Control-Allow-Origin''
                           = url_origin saas))"
proof -
  from login_auth_invoked [OF assms(1)]
  have sw: "startsWith (returnPath_of req) ''/''"
    and t: "activeTunnelStore_get d (query_env req) = Some t" by simp_all
  from sw have ne: "returnPath_of req \<noteq> []" by (rule startsWith_slash_nonempty)
  show ?thesis
    using sw t ne assms(2-5)
    by (simp add: login_unfold redirect_to_idp_def redirect_def buildLoginUrl_def)
qed

theorem login_unauthenticated_redirects_to_idp_witness:
  "reply (login (example_deps Save_synchronous (Some ''https://idp.example''))
            (example_login [] ''known'' (Some ''/a b'')))
     = Inr \<lparr> statusCode = 302,
             res_headers =
               [(''Access-Control-Allow-Origin'', ''https://idp.example''),
                (''location'',
                 ''https://idp.example/api/auth/login?redirectTo=https%3A%2F%2Fauth.tunnel.example%2Flogin%3Fenv%3Dknown%26returnPath%3D%252Fa%2Bb'')],
             body = No_body \<rparr>
   \<and> url_origin ''https://idp.example'' = Some ''https://idp.example''"
proof -
  let ?d = "example_deps Save_synchronous (Some ''https://idp.example'')"
  let ?r = "example_login [] ''known'' (Some ''/a b'')"
  have inv: "Auth_invoke example_tunnel \<in> set (effects (login ?d ?r))"
    by (simp add: login_unfold example_get_known example_returnPath example_session
          example_auth startsWith_def)
  have s: "sessionStore ?d (raw ?r) (publicKeyThumbprint example_tunnel) = None"
    by (simp add: example_session)
  have a: "authFactory ?d example_tunnel (raw ?r) = Unauthenticated"
    by (simp add: example_auth)
  have c: "saasBaseUrl ?d = Some ''https://idp.example''" "''https://idp.example'' \<noteq> []"
    by (simp_all add: example_saas)
  have o: "url_origin ''https://idp.example'' = Some ''https://idp.example''"
    by code_simp
  have "reply (login ?d ?r)
     = Inr \<lparr> statusCode = 302,
             res_headers =
               [(''Access-Control-Allow-Origin'', ''https://idp.example''),
                (''location'',
                 ''https://idp.example/api/auth/login?redirectTo=https%3A%2F%2Fauth.tunnel.example%2Flogin%3Fenv%3Dknown%26returnPath%3D%252Fa%2Bb'')],
             body = No_body \<rparr>"
    by (rule trans [OF login_unauthenticated_redirects_to_idp [OF inv s a c, THEN conjunct1]])
       code_simp
  with o show ?thesis by simp
qed

text \<open>
  Claim C4, as it is worded, has the header equal to the identity provider's origin. With
  the base URL \<open>https://idp.example/console\<close> configured the header carries that string,
  path included; the origin is \<open>https://idp.example\<close>.
\<close>

theorem login_idp_header_is_base_url_verbatim:
  "authFactory (example_deps Save_synchronous (Some ''https://idp.example/console''))
       example_tunnel (raw (example_login [] ''known'' None))
     = Unauthenticated
   \<and> reply (login (example_deps Save_synchronous (Some ''https://idp.example/console''))
              (example_login [] ''known'' None))
     = Inr \<lparr> statusCode = 302,
             res_headers =
               [(''Access-Control-Allow-Origin'', ''https://idp.example/console''),
                (''location'',
                 ''https://idp.example/console/api/auth/login?redirectTo=https%3A%2F%2Fauth.tunnel.example%2Flogin%3Fenv%3Dknown%26returnPath%3D%252F'')],
             body = No_body \<rparr>
   \<and> url_origin ''https://idp.example/console'' = Some ''https://idp.example''"
proof -
  let ?d = "example_deps Save_synchronous (Some ''https://idp.example/console'')"
  let ?r = "example_login [] ''known'' None"
  have a: "authFactory ?d example_tunnel (raw ?r) = Unauthenticated"
    by (simp add: example_auth)
  have l: "redirect_to_idp ?d ''https://idp.example/console'' ''known'' ''/''
     = \<lparr> statusCode = 302,
         res_headers =
           [(''Access-Control-Allow-Origin'', ''https://idp.example/console''),
            (''location'',
             ''https://idp.example/console/api/auth/login?redirectTo=https%3A%2F%2Fauth.tunnel.example%2Flogin%3Fenv%3Dknown%26returnPath%3D%252F'')],
         body = No_body \<rparr>"
    by code_simp
  have r: "reply (login ?d ?r) = Inr (redirect_to_idp ?d ''https://idp.example/console'' ''known'' ''/'')"
    by (simp add: login_unfold example_get_known example_returnPath example_session
          example_auth example_saas startsWith_def)
  have o: "url_origin ''https://idp.example/console'' = Some ''https://idp.example''"
    by code_simp
  from a l r o show ?thesis by simp
qed

lemma redirect_to_tenant_unfold:
  "redirect_to_tenant d env rp =
     (case newURL d rp
             (editUrl d (baseUrl d)
                \<lparr> edit_hostname = Some (env @ ''.'' @ url_hostname (baseUrl d)),
                  edit_queryParams = None, edit_path = None \<rparr>) of
        None \<Rightarrow> Inl TypeError_Invalid_URL
      | Some u \<Rightarrow> Inr (redirect [] (URL_toString u)))"
  by (simp add: redirect_to_tenant_def tenant_base_def)

lemma example_redirect_root:
  "redirect_to_tenant (example_deps k saas) ''known'' ''/''
     = Inr (redirect [] ''https://known.tunnel.example/'')"
  by code_simp

lemma example_redirect_empty_authority:
  "redirect_to_tenant (example_deps k saas) ''known'' ''//'' = Inl TypeError_Invalid_URL"
  by code_simp

lemma example_redirect_external:
  "redirect_to_tenant (example_deps k saas) ''known'' ''//evil.example/x''
     = Inr (redirect [] ''https://evil.example/x'')"
  by code_simp

text \<open>
  Claim C9. A login request whose \<open>returnPath\<close> does not start with a slash is answered
  with 400 and \<open>{error: 'returnPath must be a relative path'}\<close>, whatever its \<open>env\<close> is
  and whatever the registry holds; the handler has called no collaborator by then, so
  the check comes before any registry lookup.
\<close>

theorem login_rejects_returnPath_first:
  assumes "\<not> startsWith (returnPath_of req) ''/''"
  shows "reply (login d req) =
           Inr \<lparr> statusCode = 400, res_headers = [],
                 body = Json_error ''returnPath must be a relative path'' \<rparr>
         \<and> effects (login d req) = []"
  using assms by (simp add: login_unfold json_error_def)

theorem login_rejects_returnPath_first_witness:
  "reply (login (example_deps Save_synchronous None) (example_login [] ''known'' (Some ''rel'')))
     = Inr (json_error 400 ''returnPath must be a relative path'')
   \<and> reply (login (example_deps Save_synchronous None)
              (example_login [] ''unknown'' (Some ''https://evil.example/'')))
     = Inr (json_error 400 ''returnPath must be a relative path'')
   \<and> reply (login (example_deps Save_synchronous None) (example_login [] ''unknown'' (Some '''')))
     = Inr (json_error 400 ''returnPath must be a relative path'')
   \<and> effects (login (example_deps Save_synchronous None)
                (example_login [] ''known'' (Some ''rel''))) = []"
proof -
  let ?d = "example_deps Save_synchronous None"
  have a: "\<not> startsWith (returnPath_of (example_login [] ''known'' (Some ''rel''))) ''/''"
    and b: "\<not> startsWith (returnPath_of (example_login [] ''unknown''
                                           (Some ''https://evil.example/''))) ''/''"
    and c: "\<not> startsWith (returnPath_of (example_login [] ''unknown'' (Some ''''))) ''/''"
    by (simp_all add: example_returnPath startsWith_def)
  from login_rejects_returnPath_first [OF a, of ?d]
       login_rejects_returnPath_first [OF b, of ?d]
       login_rejects_returnPath_first [OF c, of ?d]
  show ?thesis by (simp add: json_error_def)
qed

text \<open>
  Claim C6, amended. A login request whose \<open>env\<close> does not resolve to an active tunnel
  constructs no authenticator and opens no session; if its \<open>returnPath\<close> starts with a
  slash, the reply is 404 with \<open>{error: 'unknown envId'}\<close>.
\<close>

theorem login_unknown_env:
  assumes "activeTunnelStore_get d (query_env req) = None"
  shows "(startsWith (returnPath_of req) ''/'' \<longrightarrow>
            reply (login d req) =
              Inr \<lparr> statusCode = 404, res_headers = [], body = Json_error ''unknown envId'' \<rparr>)
         \<and> \<not> list_ex is_auth_effect (effects (login d req))
         \<and> \<not> list_ex is_session_effect (effects (login d req))
         \<and> session_at_reply (login d req) = None"
  using assms by (simp add: login_unfold json_error_def)

theorem login_unknown_env_witness:
  "startsWith (returnPath_of (example_login [] ''unknown'' None)) ''/''
   \<and> reply (login (example_deps Save_synchronous None) (example_login [] ''unknown'' None))
     = Inr (json_error 404 ''unknown envId'')
   \<and> effects (login (example_deps Save_synchronous None) (example_login [] ''unknown'' None))
     = [Store_get ''unknown'']"
proof -
  let ?d = "example_deps Save_synchronous None"
  let ?r = "example_login [] ''unknown'' None"
  have u: "activeTunnelStore_get ?d (query_env ?r) = None"
    by (simp add: example_get_known example_returnPath)
  have sw: "startsWith (returnPath_of ?r) ''/''"
    by (simp add: example_returnPath startsWith_def)
  have e: "effects (login ?d ?r) = [Store_get ''unknown'']"
    using u sw by (simp add: login_unfold example_returnPath)
  from login_unknown_env [OF u] sw e show ?thesis
    by (simp add: json_error_def)
qed

text \<open>
  Claim C6, as it is worded, promises the 404 for every request with an unknown \<open>env\<close>.
  The \<open>returnPath\<close> check comes first: this request has an unknown \<open>env\<close> and is answered
  with 400.
\<close>

theorem login_unknown_env_bad_returnPath:
  "activeTunnelStore_get (example_deps Save_synchronous None) ''unknown'' = None
   \<and> reply (login (example_deps Save_synchronous None)
              (example_login [] ''unknown'' (Some ''rel'')))
     = Inr \<lparr> statusCode = 400, res_headers = [],
             body = Json_error ''returnPath must be a relative path'' \<rparr>"
  by (simp add: login_unfold example_get_known example_returnPath startsWith_def json_error_def)

text \<open>
  Claim C7, amended. A login request with a known \<open>env\<close> whose session already carries
  claims constructs no authenticator and writes nothing to the session; if its
  \<open>returnPath\<close> starts with a slash and resolves against the URL of \<open><env>.<base>\<close>, the
  reply is a redirect (302) to the resolved URL.
\<close>

theorem login_with_session_skips_authentication:
  assumes "activeTunnelStore_get d (query_env req) = Some t"
      and "sessionStore d (raw req) (publicKeyThumbprint t) = Some c"
  shows "\<not> list_ex is_auth_effect (effects (login d req))
         \<and> \<not> list_ex is_session_write (effects (login d req))
         \<and> (startsWith (returnPath_of req) ''/''
              \<and> newURL d (returnPath_of req)
                    (editUrl d (baseUrl d)
                       \<lparr> edit_hostname =
                           Some (query_env req @ ''.'' @ url_hostname (baseUrl d)),
                         edit_queryParams = None, edit_path = None \<rparr>) = Some u
              \<longrightarrow> reply (login d req) =
                    Inr \<lparr> statusCode = 302,
                          res_headers = [(''location'', URL_toString u)],
                          body = No_body \<rparr>)"
  using assms by (simp add: login_unfold redirect_to_tenant_unfold redirect_def)

theorem login_with_session_skips_authentication_witness:
  "reply (login (example_deps Save_synchronous None)
            (example_login [(''cookie'', ''session'')] ''known'' (Some ''/app?tab=1'')))
     = Inr (redirect [] ''https://known.tunnel.example/app?tab=1'')
   \<and> effects (login (example_deps Save_synchronous None)
                (example_login [(''cookie'', ''session'')] ''known'' (Some ''/app?tab=1'')))
     = [Store_get ''known'', Session_open ''thumb'']"
proof -
  let ?d = "example_deps Save_synchronous None"
  let ?r = "example_login [(''cookie'', ''session'')] ''known'' (Some ''/app?tab=1'')"
  let ?u = "\<lparr> url_scheme = ''https'', url_username = [], url_password = [],
              url_hostname = ''known.tunnel.example'', url_port = None,
              url_pathname = ''/app'', url_query = Some ''tab=1'', url_fragment = None \<rparr>"
  have t: "activeTunnelStore_get ?d (query_env ?r) = Some example_tunnel"
    by (simp add: example_get_known example_returnPath)
  have s: "sessionStore ?d (raw ?r) (publicKeyThumbprint example_tunnel) = Some (Claims ''alice'')"
    by (simp add: example_session)
  have sw: "startsWith (returnPath_of ?r) ''/''"
    by (simp add: example_returnPath startsWith_def)
  have u: "newURL ?d (returnPath_of ?r)
             (editUrl ?d (baseUrl ?d)
                \<lparr> edit_hostname = Some (query_env ?r @ ''.'' @ url_hostname (baseUrl ?d)),
                  edit_queryParams = None, edit_path = None \<rparr>) = Some ?u"
    by code_simp
  have str: "URL_toString ?u = ''https://known.tunnel.example/app?tab=1''"
    by code_simp
  have e: "effects (login ?d ?r) = [Store_get ''known'', Session_open ''thumb'']"
    using t s sw by (simp add: login_unfold example_returnPath example_tunnel_def example_session)
  from login_with_session_skips_authentication [OF t _, of "Claims ''alice''" ?u] sw u
  have "reply (login ?d ?r) =
          Inr \<lparr> statusCode = 302, res_headers = [(''location'', URL_toString ?u)],
                body = No_body \<rparr>"
    by (simp add: example_session)
  with str e show ?thesis by (simp add: redirect_def)
qed

text \<open>
  Claim C7, as it is worded, promises the redirect for every such request. With a
  \<open>returnPath\<close> that does not start with a slash the reply is 400; with \<open>//\<close>, which has no
  host to resolve to, \<open>new URL\<close> throws and there is no reply from the handler.
\<close>

theorem login_with_session_not_always_redirect:
  "activeTunnelStore_get (example_deps Save_synchronous None) ''known'' = Some example_tunnel
   \<and> sessionStore (example_deps Save_synchronous None)
        (raw (example_login [(''cookie'', ''session'')] ''known'' (Some ''rel'')))
        (publicKeyThumbprint example_tunnel) = Some (Claims ''alice'')
   \<and> reply (login (example_deps Save_synchronous None)
              (example_login [(''cookie'', ''session'')] ''known'' (Some ''rel'')))
     = Inr \<lparr> statusCode = 400, res_headers = [],
             body = Json_error ''returnPath must be a relative path'' \<rparr>
   \<and> reply (login (example_deps Save_synchronous None)
              (example_login [(''cookie'', ''session'')] ''known'' (Some ''//'')))
     = Inl TypeError_Invalid_URL"
  by (simp add: login_unfold example_get_known example_returnPath example_session
        startsWith_def json_error_def example_redirect_empty_authority)

text \<open>A pending save persists the staged claims when it resolves, not before.\<close>

lemma session_save_asynchronous_then_resolved:
  "persisted (session_save_call Save_asynchronous (session_set c (session_open None))) = None
   \<and> persisted (session_save_resolved
                  (session_save_call Save_asynchronous (session_set c (session_open None))))
       = Some c"
  by (simp add: session_save_call_def session_set_def session_open_def
        session_save_resolved_def)

text \<open>
  Claim C1. When the authenticator is invoked and returns an authenticated result, the
  handler stages the returned claims (\<open>session.set\<close>), calls \<open>session.save()\<close> and issues
  the redirect to the tenant's host, in this order, and it does not wait for the save:
  what the session store holds when the redirect is issued is what the call itself has
  done. With a store whose \<open>save\<close> persists synchronously the claims are durable by then;
  with an asynchronous \<open>save\<close>, as the specification describes it, nothing is persisted
  yet and the save is pending.
\<close>

theorem login_redirect_does_not_await_save:
  assumes "Auth_invoke t \<in> set (effects (login d req))"
      and "authFactory d t (raw req) = Authenticated c"
  shows "effects (login d req) =
           [Store_get (query_env req), Session_open (publicKeyThumbprint t),
            Auth_build t, Auth_invoke t, Session_set c, Session_save]
         \<and> session_at_reply (login d req) =
             Some \<lparr> user = Some c,
                    persisted = (case session_save d of
                                   Save_synchronous \<Rightarrow> Some c
                                 | Save_asynchronous \<Rightarrow> None),
                    save_pending = (session_save d = Save_asynchronous) \<rparr>
         \<and> (newURL d (returnPath_of req)
                (editUrl d (baseUrl d)
                   \<lparr> edit_hostname =
                       Some (query_env req @ ''.'' @ url_hostname (baseUrl d)),
                     edit_queryParams = None, edit_path = None \<rparr>) = Some u
              \<longrightarrow> reply (login d req) =
                    Inr \<lparr> statusCode = 302,
                          res_headers = [(''location'', URL_toString u)],
                          body = No_body \<rparr>)"
proof -
  from login_auth_invoked [OF assms(1)]
  have sw: "startsWith (returnPath_of req) ''/''"
    and t: "activeTunnelStore_get d (query_env req) = Some t"
    and s: "sessionStore d (raw req) (publicKeyThumbprint t) = None" by simp_all
  show ?thesis
    using sw t s assms(2)
    by (cases "session_save d")
       (simp_all add: login_unfold redirect_to_tenant_unfold session_save_call_def
          session_set_def session_open_def redirect_def)
qed

theorem login_redirect_does_not_await_save_witness:
  "effects (login (example_deps Save_asynchronous None)
              (example_login [(''authorization'', ''good'')] ''known'' None))
     = [Store_get ''known'', Session_open ''thumb'', Auth_build example_tunnel,
        Auth_invoke example_tunnel, Session_set (Claims ''alice''), Session_save]
   \<and> session_at_reply (login (example_deps Save_asynchronous None)
                         (example_login [(''authorization'', ''good'')] ''known'' None))
     = Some \<lparr> user = Some (Claims ''alice''), persisted = None, save_pending = True \<rparr>
   \<and> reply (login (example_deps Save_asynchronous None)
              (example_login [(''authorization'', ''good'')] ''known'' None))
     = Inr (redirect [] ''https://known.tunnel.example/'')
   \<and> session_at_reply (login (example_deps Save_synchronous None)
                         (example_login [(''authorization'', ''good'')] ''known'' None))
     = Some \<lparr> user = Some (Claims ''alice''), persisted = Some (Claims ''alice''),
              save_pending = False \<rparr>"
proof -
  let ?a = "example_deps Save_asynchronous None"
  let ?s = "example_deps Save_synchronous None"
  let ?r = "example_login [(''authorization'', ''good'')] ''known'' None"
  let ?u = "\<lparr> url_scheme = ''https'', url_username = [], url_password = [],
              url_hostname = ''known.tunnel.example'', url_port = None,
              url_pathname = ''/'', url_query = None, url_fragment = None \<rparr>"
  have inv: "Auth_invoke example_tunnel \<in> set (effects (login d ?r))"
    if "d = example_deps k None" for d k
    using that
    by (simp add: login_unfold example_get_known example_returnPath example_session
          example_auth startsWith_def)
  have au: "authFactory (example_deps k None) example_tunnel (raw ?r)
              = Authenticated (Claims ''alice'')" for k
    by (simp add: example_auth)
  have ka: "session_save ?a = Save_asynchronous" and ks: "session_save ?s = Save_synchronous"
    by (simp_all add: example_deps_def)
  have u: "newURL ?a (returnPath_of ?r)
             (editUrl ?a (baseUrl ?a)
                \<lparr> edit_hostname = Some (query_env ?r @ ''.'' @ url_hostname (baseUrl ?a)),
                  edit_queryParams = None, edit_path = None \<rparr>) = Some ?u"
    by code_simp
  have str: "URL_toString ?u = ''https://known.tunnel.example/''"
    by code_simp
  from login_redirect_does_not_await_save [OF inv [OF refl] au, of Save_asynchronous ?u] ka u str
  have asy:
    "effects (login ?a ?r)
       = [Store_get ''known'', Session_open ''thumb'', Auth_build example_tunnel,
          Auth_invoke example_tunnel, Session_set (Claims ''alice''), Session_save]
     \<and> session_at_reply (login ?a ?r)
       = Some \<lparr> user = Some (Claims ''alice''), persisted = None, save_pending = True \<rparr>
     \<and> reply (login ?a ?r) = Inr (redirect [] ''https://known.tunnel.example/'')"
    by (simp add: example_returnPath example_tunnel_def redirect_def)
  from login_redirect_does_not_await_save [OF inv [OF refl] au, of Save_synchronous ?u] ks
  have syn:
    "session_at_reply (login ?s ?r)
       = Some \<lparr> user = Some (Claims ''alice''), persisted = Some (Claims ''alice''),
                save_pending = False \<rparr>"
    by simp
  from asy syn show ?thesis by simp
qed

text \<open>
  A reference whose second byte, once tabs and newlines are removed, is neither a slash
  nor a backslash stays on the host, the scheme and the port of the base it is resolved
  against; \<open>//host\<close>, \<open>/\\host\<close> and a slash, a tab and a slash before the host do not.
\<close>

lemma URL_new_single_slash_keeps_host:
  assumes "URL_new input base = Some u"
      and "url_preprocess input = CHR ''/'' # rest"
      and "rest = [] \<or> \<not> is_slash (hd rest)"
  shows "url_hostname u = url_hostname base \<and> url_scheme u = url_scheme base
         \<and> url_port u = url_port base"
  using assms
  by (auto simp: URL_new_def split: if_splits prod.splits)

text \<open>
  Claim C2. The check \<open>returnPath.startsWith('/')\<close> accepts \<open>//evil.example/x\<close>, a
  scheme-relative reference. Resolved against the tenant's URL it keeps only the scheme:
  the login handler redirects to \<open>https://evil.example/x\<close>, for a session that already has
  claims and for a request that has just been authenticated alike.
\<close>

theorem login_double_slash_leaves_tenant_host:
  "startsWith ''//evil.example/x'' ''/''
   \<and> reply (login (example_deps Save_synchronous None)
              (example_login [(''cookie'', ''session'')] ''known'' (Some ''//evil.example/x'')))
     = Inr \<lparr> statusCode = 302, res_headers = [(''location'', ''https://evil.example/x'')],
             body = No_body \<rparr>
   \<and> reply (login (example_deps Save_synchronous None)
              (example_login [(''authorization'', ''good'')] ''known'' (Some ''//evil.example/x'')))
     = Inr \<lparr> statusCode = 302, res_headers = [(''location'', ''https://evil.example/x'')],
             body = No_body \<rparr>"
  by (simp add: login_unfold example_get_known example_returnPath example_session example_auth
        startsWith_def example_redirect_external redirect_def)

subsection \<open>Tunnel discovery\<close>

text \<open>
  Claim C8. When the registry has no tunnels for the thumbprint of
  \<open>GET /profiles/{p}/tunnels\<close> (it returns nothing, or an empty list), the reply is 200 with
  an empty list, and no authenticator is constructed or invoked.
\<close>

theorem profile_without_tunnels:
  assumes "activeTunnelStore_getByPkThumbprint d profileId = None
           \<or> activeTunnelStore_getByPkThumbprint d profileId = Some []"
  shows "reply (profile_tunnels d profileId req) =
           Inr \<lparr> statusCode = 200, res_headers = [], body = Json_tunnels [] \<rparr>
         \<and> \<not> list_ex is_auth_effect (effects (profile_tunnels d profileId req))"
  using assms by (auto simp: profile_tunnels_def Let_def)

theorem profile_without_tunnels_witness:
  "activeTunnelStore_getByPkThumbprint (example_deps Save_synchronous None) ''nobody'' = None
   \<and> reply (profile_tunnels (example_deps Save_synchronous None) ''nobody'' (example_request []))
     = Inr \<lparr> statusCode = 200, res_headers = [], body = Json_tunnels [] \<rparr>
   \<and> effects (profile_tunnels (example_deps Save_synchronous None) ''nobody'' (example_request []))
     = [Store_getByPkThumbprint ''nobody'']"
proof -
  let ?d = "example_deps Save_synchronous None"
  have n: "activeTunnelStore_getByPkThumbprint ?d ''nobody'' = None"
    by (simp add: example_deps_def)
  then have e: "effects (profile_tunnels ?d ''nobody'' (example_request []))
                  = [Store_getByPkThumbprint ''nobody'']"
    by (simp add: profile_tunnels_def Let_def)
  from profile_without_tunnels [of ?d "''nobody''" "example_request []"] n e
  show ?thesis by simp
qed

end
